theory Spec2Isabelle
  imports Main "HOL-Library.Word" "HOL-Library.Char_ord" "HOL-Library.List_Lexorder"
begin

section \<open>The genesis registry of iotex-core (blockchain/genesis/genesis.go)\<close>

text \<open>
  A shallow embedding of package \<open>genesis\<close>: the parameter record with its defaults, the
  height-gated fork predicates, the tiered block gas limit, the genesis hash, the
  replay-deployer whitelist, the set-once genesis timestamp and the decimal-string amount
  accessors.

  Go's \<open>uint64\<close> and \<open>int64\<close> are 64-bit words (\<open>\<le>\<close> on words is the unsigned
  comparison, which is the one the fork predicates use on \<open>uint64\<close>); \<open>uint32\<close> is a
  32-bit word; a \<open>time.Duration\<close> is its \<open>int64\<close> count of nanoseconds; a \<open>float64\<close>
  is carried as its IEEE-754 bit pattern, since no function of the package computes with
  one. A Go \<open>string\<close> is a byte sequence, here a \<open>string\<close> (a list of 8-bit characters).
\<close>

type_synonym uint64 = "64 word"
type_synonym int64 = "64 word"
type_synonym uint32 = "32 word"
type_synonym float64 = "64 word"
type_synonym Duration = int64

subsection \<open>The parameter record\<close>

record Blockchain =
  Timestamp :: int64
  BlockGasLimit :: uint64
  TsunamiBlockGasLimit :: uint64
  WakeBlockGasLimit :: uint64
  ActionGasLimit :: uint64
  BlockInterval :: Duration
  NumSubEpochs :: uint64
  DardanellesNumSubEpochs :: uint64
  WakeNumSubEpochs :: uint64
  NumDelegates :: uint64
  NumCandidateDelegates :: uint64
  TimeBasedRotation :: bool
  MinBlocksForBlobRetention :: uint64
  PacificBlockHeight :: uint64
  AleutianBlockHeight :: uint64
  BeringBlockHeight :: uint64
  CookBlockHeight :: uint64
  DardanellesBlockHeight :: uint64
  DaytonaBlockHeight :: uint64
  EasterBlockHeight :: uint64
  FbkMigrationBlockHeight :: uint64
  FairbankBlockHeight :: uint64
  GreenlandBlockHeight :: uint64
  HawaiiBlockHeight :: uint64
  IcelandBlockHeight :: uint64
  JutlandBlockHeight :: uint64
  KamchatkaBlockHeight :: uint64
  LordHoweBlockHeight :: uint64
  MidwayBlockHeight :: uint64
  NewfoundlandBlockHeight :: uint64
  OkhotskBlockHeight :: uint64
  PalauBlockHeight :: uint64
  QuebecBlockHeight :: uint64
  RedseaBlockHeight :: uint64
  SumatraBlockHeight :: uint64
  TsunamiBlockHeight :: uint64
  UpernavikBlockHeight :: uint64
  VanuatuBlockHeight :: uint64
  WakeBlockHeight :: uint64
  ToBeEnabledBlockHeight :: uint64

text \<open>
  \<open>InitBalanceMap\<close> is a Go \<open>map[string]string\<close>. Its keys are unique and \<open>range\<close>
  visits them in an order the language leaves open, so the map is an association list:
  the order of the list is the order in which \<open>range\<close> happens to visit the entries, and a
  well-formed map has distinct keys.
\<close>

record Account =
  InitBalanceMap :: "(string \<times> string) list"
  ReplayDeployerWhitelist :: "string list"

record Delegate =
  OperatorAddrStr :: string
  RewardAddrStr :: string
  VotesStr :: string

record Poll =
  PollMode :: string
  EnableGravityChainVoting :: bool
  GravityChainStartHeight :: uint64
  GravityChainCeilingHeight :: uint64
  GravityChainHeightInterval :: uint64
  RegisterContractAddress :: string
  StakingContractAddress :: string
  NativeStakingContractAddress :: string
  NativeStakingContractCode :: string
  ConsortiumCommitteeContractCode :: string
  VoteThreshold :: string
  ScoreThreshold :: string
  SelfStakingThreshold :: string
  Delegates :: "Delegate list"
  ProbationEpochPeriod :: uint64
  ProbationIntensityRate :: uint32
  UnproductiveDelegateMaxCacheSize :: uint64
  SystemStakingContractAddress :: string
  SystemStakingContractHeight :: uint64
  SystemSGDContractAddress :: string
  SystemSGDContractHeight :: uint64
  SystemStakingContractV2Address :: string
  SystemStakingContractV2Height :: uint64
  SystemStakingContractV3Address :: string
  SystemStakingContractV3Height :: uint64

record Rewarding =
  InitBalanceStr :: string
  BlockRewardStr :: string
  DardanellesBlockRewardStr :: string
  EpochRewardStr :: string
  AleutianEpochRewardStr :: string
  NumDelegatesForEpochReward :: uint64
  ExemptAddrStrsFromEpochReward :: "string list"
  FoundationBonusStr :: string
  NumDelegatesForFoundationBonus :: uint64
  FoundationBonusLastEpoch :: uint64
  FoundationBonusP2StartEpoch :: uint64
  FoundationBonusP2EndEpoch :: uint64
  ProductivityThreshold :: uint64
  WakeBlockRewardStr :: string

record VoteWeightCalConsts =
  DurationLg :: float64
  AutoStake :: float64
  SelfStake :: float64

record RegistrationConsts =
  Fee :: string
  MinSelfStake :: string

record BootstrapCandidate =
  OwnerAddress :: string
  OperatorAddress :: string
  RewardAddress :: string
  Name :: string
  SelfStakingTokens :: string

record Staking =
  VoteWeightCalConsts :: VoteWeightCalConsts
  RegistrationConsts :: RegistrationConsts
  WithdrawWaitingPeriod :: Duration
  MinStakeAmount :: string
  BootstrapCandidates :: "BootstrapCandidate list"
  EndorsementWithdrawWaitingBlocks :: uint64

text \<open>
  \<open>Genesis\<close> embeds the five sub-records; Go promotes their fields, the model reaches
  them through the sub-record (\<open>Timestamp (Blockchain g)\<close> for \<open>g.Timestamp\<close>).
\<close>

record Genesis =
  Blockchain :: Blockchain
  Account :: Account
  Poll :: Poll
  Rewarding :: Rewarding
  Staking :: Staking

subsection \<open>Defaults\<close>

text \<open>
  \<open>defaultConfig\<close> writes some amounts as \<open>unit.ConvertIotxToRau(n).String()\<close>. Package
  \<open>unit\<close> is not part of the file, so the function from \<open>n\<close> to that string is the
  parameter \<open>rau\<close>. \<open>math.MaxUint64\<close> is the word \<open>- 1\<close>; \<open>10 * time.Second\<close> and
  \<open>3 * 24 * time.Hour\<close> are counts of nanoseconds; the three floats 1.2, 1 and 1.06 are
  given by their bit patterns.
\<close>

definition defaultConfig :: "(int \<Rightarrow> string) \<Rightarrow> Genesis" where
  "defaultConfig rau = \<lparr>
     Blockchain = \<lparr>
       Timestamp = 1553558500,
       BlockGasLimit = 20000000,
       TsunamiBlockGasLimit = 50000000,
       WakeBlockGasLimit = 25000000,
       ActionGasLimit = 5000000,
       BlockInterval = 10 * 1000000000,
       NumSubEpochs = 15,
       DardanellesNumSubEpochs = 30,
       WakeNumSubEpochs = 60,
       NumDelegates = 24,
       NumCandidateDelegates = 36,
       TimeBasedRotation = True,
       MinBlocksForBlobRetention = 345600,
       PacificBlockHeight = 432001,
       AleutianBlockHeight = 864001,
       BeringBlockHeight = 1512001,
       CookBlockHeight = 1641601,
       DardanellesBlockHeight = 1816201,
       DaytonaBlockHeight = 3238921,
       EasterBlockHeight = 4478761,
       FbkMigrationBlockHeight = 5157001,
       FairbankBlockHeight = 5165641,
       GreenlandBlockHeight = 6544441,
       HawaiiBlockHeight = 11267641,
       IcelandBlockHeight = 12289321,
       JutlandBlockHeight = 13685401,
       KamchatkaBlockHeight = 13816441,
       LordHoweBlockHeight = 13979161,
       MidwayBlockHeight = 16509241,
       NewfoundlandBlockHeight = 17662681,
       OkhotskBlockHeight = 21542761,
       PalauBlockHeight = 22991401,
       QuebecBlockHeight = 24838201,
       RedseaBlockHeight = 26704441,
       SumatraBlockHeight = 28516681,
       TsunamiBlockHeight = 29275561,
       UpernavikBlockHeight = 31174201,
       VanuatuBlockHeight = 33730921,
       WakeBlockHeight = 36893881,
       ToBeEnabledBlockHeight = - 1 \<rparr>,
     Account = \<lparr>
       InitBalanceMap = [],
       ReplayDeployerWhitelist = [''0x3fab184622dc19b6109349b94811493bf2a45362''] \<rparr>,
     Poll = \<lparr>
       PollMode = ''nativeMix'',
       EnableGravityChainVoting = True,
       GravityChainStartHeight = 7614500,
       GravityChainCeilingHeight = 10199000,
       GravityChainHeightInterval = 100,
       RegisterContractAddress = ''0x95724986563028deb58f15c5fac19fa09304f32d'',
       StakingContractAddress = ''0x87c9dbff0016af23f5b1ab9b8e072124ab729193'',
       NativeStakingContractAddress = ''io1xpq62aw85uqzrccg9y5hnryv8ld2nkpycc3gza'',
       NativeStakingContractCode = '''',
       ConsortiumCommitteeContractCode = '''',
       VoteThreshold = ''100000000000000000000'',
       ScoreThreshold = ''2000000000000000000000000'',
       SelfStakingThreshold = ''1200000000000000000000000'',
       Delegates = [],
       ProbationEpochPeriod = 6,
       ProbationIntensityRate = 90,
       UnproductiveDelegateMaxCacheSize = 20,
       SystemStakingContractAddress = ''io1drde9f483guaetl3w3w6n6y7yv80f8fael7qme'',
       SystemStakingContractHeight = 24486464,
       SystemSGDContractAddress = '''',
       SystemSGDContractHeight = 0,
       SystemStakingContractV2Address = ''io13mjjr5shj4mte39axwsqjp8fdggk0qzjhatprp'',
       SystemStakingContractV2Height = 30934838,
       SystemStakingContractV3Address = ''io1vkcvq4ywarvfj4u9zwlqedfsttalq55jmtmqcu'',
       SystemStakingContractV3Height = 36726575 \<rparr>,
     Rewarding = \<lparr>
       InitBalanceStr = rau 200000000,
       BlockRewardStr = rau 16,
       DardanellesBlockRewardStr = rau 8,
       EpochRewardStr = rau 12500,
       AleutianEpochRewardStr = rau 18750,
       NumDelegatesForEpochReward = 100,
       ExemptAddrStrsFromEpochReward = [
         ''io15fqav3tugm96ge7anckx0k4gukz5m4mqf0jpv3'',
         ''io1x9kjkr0qv2fa7j4t2as8lrj223xxsqt4tl7xp7'',
         ''io1ar5l5s268rtgzshltnqv88mua06ucm58dx678y'',
         ''io1xsx5n94kg2zv64r7tm8vyz9mh86amfak9ka9xx'',
         ''io1vtm2zgn830pn6auc2cvnchgwdaefa9gr4z0s86'',
         ''io159fv8mu9d5djk8u2t0flgw4yqmt6fg98uqjka8'',
         ''io1c3r4th3zrk4uhv83a9gr4gvn3y6pzaj6mc84ea'',
         ''io14vmhs9c75r2ptxdaqrtk0dz7skct30pxmt69d9'',
         ''io1gf08snppu2a2wfd50pjas2j6q2kcxjzqph3pep'',
         ''io1u5ff879gg2dw9vfpxr2tsmuaz07e2rea6gvl7s'',
         ''io1du4eq4f88n4wyc026l3gamjwetlgsg4jz7j884'',
         ''io12yxdwewry70gr9fs6fphyfaky9c7gurmzk8f4f'',
         ''io1lx53nfgq2dnzrz5ecz2ecs7vvl6qll0mkn970w'',
         ''io1u5xy0ecnrjrdkzyctfqh37lgr5pcfzphgqrdwt'',
         ''io1aj8arp07xw6s9rgh42af5xf98csyuehnnwlk52'',
         ''io18gdmv5g0xhkuj2cdyvp8076uwhl7h3gesmzh8u'',
         ''io1td5fvamm3qf22r5h93gay6ggqdh9z0edeqx63u'',
         ''io1qs785af9k9xf3xgd6vut7um9zcthtrvsn2xap2'',
         ''io127ftn4ry6wgxdrw4hcd6gdwqlq70ujk98dvtw5'',
         ''io1wv5m0xyermvr2n0wjx2cjsqwyk863drdl5qfyn'',
         ''io1v0q5g2f8z6l3v25krl677chdx7g5pwt9kvqfpc'',
         ''io1xsdegzr2hdj5sv5ad4nr0yfgpsd98e40u6svem'',
         ''io1fks575kklxafq4fwjccmz5d3pmq5ynxk5h6h0v'',
         ''io15npzu93ug8r3zdeysppnyrcdu2xssz0lcam9l9'',
         ''io1gh7xfrsnj6p5uqgjpk9xq6jg9na28aewgp7a9v'',
         ''io1nyjs526mnqcsx4twa7nptkg08eclsw5c2dywp4'',
         ''io1jafqlvntcxgyp6e0uxctt3tljzc3vyv5hg4ukh'',
         ''io1z7mjef7w528nasnsafan0rp6yuvkvq405l6r8j'',
         ''io1cup9k8hl8fp40vrj29ex8djc346780dk223end'',
         ''io1scs89jur7qklzh5vfrmha3c40u8yajjx6kvzg9'',
         ''io10kyvvzu08pjeylymq4umknjal25ea3ptfknrpf'',
         ''io18mvepyxkcd5jkyplfqn27ydkpsendrey3xe2l8'',
         ''io1nz40npqa3yvek4zdasmqaetl2j4h6urejfkera'',
         ''io1m7p9yrejngxyvxhvn7p9g9uwlvd7uuamg8wcjd'',
         ''io1cwwm08dwv9phh3wt5vsdhu9gcypw9q2sc7pl9s'',
         ''io14aj46jjmtt83vts9syhrs9st80czumg40cjasl''],
       FoundationBonusStr = rau 80,
       NumDelegatesForFoundationBonus = 36,
       FoundationBonusLastEpoch = 8760,
       FoundationBonusP2StartEpoch = 9698,
       FoundationBonusP2EndEpoch = 18458,
       ProductivityThreshold = 85,
       WakeBlockRewardStr = ''4000000000000000000'' \<rparr>,
     Staking = \<lparr>
       VoteWeightCalConsts = \<lparr>
         DurationLg = 4608083138725491507,
         AutoStake = 4607182418800017408,
         SelfStake = 4607452634777659638 \<rparr>,
       RegistrationConsts = \<lparr>
         Fee = rau 100,
         MinSelfStake = rau 1200000 \<rparr>,
       WithdrawWaitingPeriod = 3 * 24 * 3600000000000,
       MinStakeAmount = rau 100,
       BootstrapCandidates = [],
       EndorsementWithdrawWaitingBlocks = 17280 \<rparr> \<rparr>"

subsection \<open>Fork predicates and the tiered block gas limit\<close>

text \<open>
  The receiver \<open>g\<close> of \<open>isPost\<close> is not read by its body; it is kept as an argument so
  that each predicate reads as its source does.
\<close>

definition isPost :: "Blockchain \<Rightarrow> uint64 \<Rightarrow> uint64 \<Rightarrow> bool" where
  "isPost g targetHeight height = (height \<ge> targetHeight)"

definition IsPacific :: "Blockchain \<Rightarrow> uint64 \<Rightarrow> bool" where
  "IsPacific g height = isPost g (PacificBlockHeight g) height"

definition IsAleutian :: "Blockchain \<Rightarrow> uint64 \<Rightarrow> bool" where
  "IsAleutian g height = isPost g (AleutianBlockHeight g) height"

definition IsBering :: "Blockchain \<Rightarrow> uint64 \<Rightarrow> bool" where
  "IsBering g height = isPost g (BeringBlockHeight g) height"

definition IsCook :: "Blockchain \<Rightarrow> uint64 \<Rightarrow> bool" where
  "IsCook g height = isPost g (CookBlockHeight g) height"

definition IsDardanelles :: "Blockchain \<Rightarrow> uint64 \<Rightarrow> bool" where
  "IsDardanelles g height = isPost g (DardanellesBlockHeight g) height"

definition IsDaytona :: "Blockchain \<Rightarrow> uint64 \<Rightarrow> bool" where
  "IsDaytona g height = isPost g (DaytonaBlockHeight g) height"

definition IsEaster :: "Blockchain \<Rightarrow> uint64 \<Rightarrow> bool" where
  "IsEaster g height = isPost g (EasterBlockHeight g) height"

definition IsFairbank :: "Blockchain \<Rightarrow> uint64 \<Rightarrow> bool" where
  "IsFairbank g height = isPost g (FairbankBlockHeight g) height"

definition IsFbkMigration :: "Blockchain \<Rightarrow> uint64 \<Rightarrow> bool" where
  "IsFbkMigration g height = isPost g (FbkMigrationBlockHeight g) height"

definition IsGreenland :: "Blockchain \<Rightarrow> uint64 \<Rightarrow> bool" where
  "IsGreenland g height = isPost g (GreenlandBlockHeight g) height"

definition IsHawaii :: "Blockchain \<Rightarrow> uint64 \<Rightarrow> bool" where
  "IsHawaii g height = isPost g (HawaiiBlockHeight g) height"

definition IsIceland :: "Blockchain \<Rightarrow> uint64 \<Rightarrow> bool" where
  "IsIceland g height = isPost g (IcelandBlockHeight g) height"

definition IsJutland :: "Blockchain \<Rightarrow> uint64 \<Rightarrow> bool" where
  "IsJutland g height = isPost g (JutlandBlockHeight g) height"

definition IsKamchatka :: "Blockchain \<Rightarrow> uint64 \<Rightarrow> bool" where
  "IsKamchatka g height = isPost g (KamchatkaBlockHeight g) height"

definition IsLordHowe :: "Blockchain \<Rightarrow> uint64 \<Rightarrow> bool" where
  "IsLordHowe g height = isPost g (LordHoweBlockHeight g) height"

definition IsMidway :: "Blockchain \<Rightarrow> uint64 \<Rightarrow> bool" where
  "IsMidway g height = isPost g (MidwayBlockHeight g) height"

definition IsNewfoundland :: "Blockchain \<Rightarrow> uint64 \<Rightarrow> bool" where
  "IsNewfoundland g height = isPost g (NewfoundlandBlockHeight g) height"

definition IsOkhotsk :: "Blockchain \<Rightarrow> uint64 \<Rightarrow> bool" where
  "IsOkhotsk g height = isPost g (OkhotskBlockHeight g) height"

definition IsPalau :: "Blockchain \<Rightarrow> uint64 \<Rightarrow> bool" where
  "IsPalau g height = isPost g (PalauBlockHeight g) height"

definition IsQuebec :: "Blockchain \<Rightarrow> uint64 \<Rightarrow> bool" where
  "IsQuebec g height = isPost g (QuebecBlockHeight g) height"

definition IsRedsea :: "Blockchain \<Rightarrow> uint64 \<Rightarrow> bool" where
  "IsRedsea g height = isPost g (RedseaBlockHeight g) height"

definition IsSumatra :: "Blockchain \<Rightarrow> uint64 \<Rightarrow> bool" where
  "IsSumatra g height = isPost g (SumatraBlockHeight g) height"

definition IsTsunami :: "Blockchain \<Rightarrow> uint64 \<Rightarrow> bool" where
  "IsTsunami g height = isPost g (TsunamiBlockHeight g) height"

definition IsUpernavik :: "Blockchain \<Rightarrow> uint64 \<Rightarrow> bool" where
  "IsUpernavik g height = isPost g (UpernavikBlockHeight g) height"

definition IsVanuatu :: "Blockchain \<Rightarrow> uint64 \<Rightarrow> bool" where
  "IsVanuatu g height = isPost g (VanuatuBlockHeight g) height"

definition IsWake :: "Blockchain \<Rightarrow> uint64 \<Rightarrow> bool" where
  "IsWake g height = isPost g (WakeBlockHeight g) height"

definition IsToBeEnabled :: "Blockchain \<Rightarrow> uint64 \<Rightarrow> bool" where
  "IsToBeEnabled g height = isPost g (ToBeEnabledBlockHeight g) height"

definition BlockGasLimitByHeight :: "Blockchain \<Rightarrow> uint64 \<Rightarrow> uint64" where
  "BlockGasLimitByHeight g height =
     (if isPost g (WakeBlockHeight g) height then WakeBlockGasLimit g
      else if isPost g (TsunamiBlockHeight g) height then TsunamiBlockGasLimit g
      else BlockGasLimit g)"

text \<open>
  The named forks, each as its configured activation height and its predicate, in the
  order of the source. The list only enumerates the predicates above, so that a statement
  about every named fork can be written once.
\<close>

definition named_forks :: "((Blockchain \<Rightarrow> uint64) \<times> (Blockchain \<Rightarrow> uint64 \<Rightarrow> bool)) list" where
  "named_forks = [
     (PacificBlockHeight, IsPacific),
     (AleutianBlockHeight, IsAleutian),
     (BeringBlockHeight, IsBering),
     (CookBlockHeight, IsCook),
     (DardanellesBlockHeight, IsDardanelles),
     (DaytonaBlockHeight, IsDaytona),
     (EasterBlockHeight, IsEaster),
     (FairbankBlockHeight, IsFairbank),
     (FbkMigrationBlockHeight, IsFbkMigration),
     (GreenlandBlockHeight, IsGreenland),
     (HawaiiBlockHeight, IsHawaii),
     (IcelandBlockHeight, IsIceland),
     (JutlandBlockHeight, IsJutland),
     (KamchatkaBlockHeight, IsKamchatka),
     (LordHoweBlockHeight, IsLordHowe),
     (MidwayBlockHeight, IsMidway),
     (NewfoundlandBlockHeight, IsNewfoundland),
     (OkhotskBlockHeight, IsOkhotsk),
     (PalauBlockHeight, IsPalau),
     (QuebecBlockHeight, IsQuebec),
     (RedseaBlockHeight, IsRedsea),
     (SumatraBlockHeight, IsSumatra),
     (TsunamiBlockHeight, IsTsunami),
     (UpernavikBlockHeight, IsUpernavik),
     (VanuatuBlockHeight, IsVanuatu),
     (WakeBlockHeight, IsWake),
     (ToBeEnabledBlockHeight, IsToBeEnabled)]"

subsection \<open>Loading\<close>

text \<open>
  The map literal of \<open>defaultInitBalanceMap\<close>, its entries in the order they are written.
\<close>

definition defaultInitBalanceMap :: "(string \<times> string) list" where
  "defaultInitBalanceMap = [
     (''io1uqhmnttmv0pg8prugxxn7d8ex9angrvfjfthxa'', ''9800000000000000000000000000''),
     (''io1v3gkc49d5vwtdfdka2ekjl3h468egun8e43r7z'', ''100000000000000000000000000''),
     (''io1vrl48nsdm8jaujccd9cx4ve23cskr0ys6urx92'', ''100000000000000000000000000''),
     (''io1llupp3n8q5x8usnr5w08j6hc6hn55x64l46rr7'', ''100000000000000000000000000''),
     (''io1ns7y0pxmklk8ceattty6n7makpw76u770u5avy'', ''100000000000000000000000000''),
     (''io1xuavja5dwde8pvy4yms06yyncad4yavghjhwra'', ''100000000000000000000000000''),
     (''io1cdqx6p5rquudxuewflfndpcl0l8t5aezen9slr'', ''100000000000000000000000000''),
     (''io1hh97f273nhxcq8ajzcpujtt7p9pqyndfmavn9r'', ''100000000000000000000000000''),
     (''io1yhvu38epz5vmkjaclp45a7t08r27slmcc0zjzh'', ''100000000000000000000000000''),
     (''io1cl6rl2ev5dfa988qmgzg2x4hfazmp9vn2g66ng'', ''100000000000000000000000000''),
     (''io1skmqp33qme8knyw0fzgt9takwrc2nvz4sevk5c'', ''100000000000000000000000000''),
     (''io1fxzh50pa6qc6x5cprgmgw4qrp5vw97zk5pxt3q'', ''100000000000000000000000000''),
     (''io1jh0ekmccywfkmj7e8qsuzsupnlk3w5337hjjg2'', ''100000000000000000000000000''),
     (''io1juvx5g063eu4ts832nukp4vgcwk2gnc5cu9ayd'', ''100000000000000000000000000''),
     (''io19d0p3ah4g8ww9d7kcxfq87yxe7fnr8rpth5shj'', ''100000000000000000000000000''),
     (''io1ed52svvdun2qv8sf2m0xnynuxfaulv6jlww7ur'', ''100000000000000000000000000''),
     (''io158hyzrmf4a8xll7gfc8xnwlv70jgp44tzy5nvd'', ''100000000000000000000000000''),
     (''io19kshh892255x4h5ularvr3q3al2v8cgl80fqrt'', ''100000000000000000000000000''),
     (''io1ph0u2psnd7muq5xv9623rmxdsxc4uapxhzpg02'', ''100000000000000000000000000''),
     (''io1znka733xefxjjw2wqddegplwtefun0mfdmz7dw'', ''100000000000000000000000000''),
     (''io13sj9mzpewn25ymheukte4v39hvjdtrfp00mlyv'', ''100000000000000000000000000''),
     (''io14gnqxf9dpkn05g337rl7eyt2nxasphf5m6n0rd'', ''100000000000000000000000000''),
     (''io1l3wc0smczyay8xq747e2hw63mzg3ctp6uf8wsg'', ''100000000000000000000000000''),
     (''io1q4tdrahguffdu4e9j9aj4f38p2nee0r9vlhx7s'', ''100000000000000000000000000''),
     (''io1k9y4a9juk45zaqwvjmhtz6yjc68twqds4qcvzv'', ''100000000000000000000000000''),
     (''io15flratm0nhh5xpxz2lznrrpmnwteyd86hxdtj0'', ''100000000000000000000000000''),
     (''io1eq4ehs6xx6zj9gcsax7h3qydwlxut9xcfcjras'', ''100000000000000000000000000''),
     (''io10a298zmzvrt4guq79a9f4x7qedj59y7ery84he'', ''100000000000000000000000000'')]"

text \<open>
  \<open>New\<close> hands the defaults and the optional file to \<open>config.NewYAML\<close> and reads the
  merged document back with \<open>Populate\<close>. Both belong to the library
  \<open>go.uber.org/config\<close>, which is not part of the repository: they are the parameters
  \<open>NewYAML\<close> and \<open>Populate\<close>, each returning the library's error or its result.
  \<open>errors.Wrap\<close> keeps the cause and adds a message. Where Go returns the pair
  \<open>(Genesis{}, err)\<close>, the model returns \<open>Inl\<close> of the error.
\<close>

datatype YAMLOption = Static Genesis | File string

datatype 'e wrapped = Wrap 'e string

definition New ::
  "(YAMLOption list \<Rightarrow> 'e + 'y) \<Rightarrow> ('y \<Rightarrow> 'e + Genesis) \<Rightarrow> (int \<Rightarrow> string) \<Rightarrow> string
     \<Rightarrow> 'e wrapped + Genesis" where
  "New NewYAML Populate rau genesisPath =
     (let def = defaultConfig rau;
          opts = [Static def] @ (if genesisPath \<noteq> [] then [File genesisPath] else [])
      in case NewYAML opts of
           Inl err \<Rightarrow> Inl (Wrap err ''error when constructing a genesis in yaml'')
         | Inr yaml \<Rightarrow>
             (case Populate yaml of
                Inl err \<Rightarrow> Inl (Wrap err ''failed to unmarshal yaml genesis to struct'')
              | Inr genesis \<Rightarrow>
                  Inr (if length (InitBalanceMap (Account genesis)) = 0
                       then genesis\<lparr>Account := (Account genesis)\<lparr>InitBalanceMap := defaultInitBalanceMap\<rparr>\<rparr>
                       else genesis)))"

subsection \<open>The process-wide genesis timestamp\<close>

text \<open>
  The package variables \<open>_genesisTs\<close> and \<open>_loadGenesisTs\<close> are the state. A
  \<open>sync.Once\<close> is its done flag: \<open>Do f\<close> runs \<open>f\<close> when the flag is unset and sets it,
  and does nothing otherwise. Both start at Go's zero values. Calls are modelled one after
  the other; \<open>sync.Once\<close> serialises concurrent ones.
\<close>

record globals =
  genesisTs :: int64
  loadGenesisTs :: bool

definition init_globals :: globals where
  "init_globals = \<lparr>genesisTs = 0, loadGenesisTs = False\<rparr>"

definition SetGenesisTimestamp :: "int64 \<Rightarrow> globals \<Rightarrow> globals" where
  "SetGenesisTimestamp ts s =
     (if loadGenesisTs s then s else s\<lparr>genesisTs := ts, loadGenesisTs := True\<rparr>)"

text \<open>The function \<open>Timestamp()\<close>; the plain name is the field of \<open>Blockchain\<close>.\<close>

definition Timestamp_func :: "globals \<Rightarrow> int64" where
  "Timestamp_func s = genesisTs s"

subsection \<open>The genesis hash\<close>

text \<open>
  \<open>Hash\<close> fills the protobuf messages of package \<open>iotextypes\<close>, serialises them with
  \<open>proto.Marshal\<close> and hashes the bytes with \<open>hash.Hash256b\<close>. The message types are
  records holding the fields that \<open>Hash\<close> sets; the serialiser and the hash function
  belong to other libraries and are the parameters \<open>marshal\<close> (the library's error, or the
  bytes) and \<open>hash256b\<close>. A \<open>hash.Hash256\<close> is 32 bytes, a 256-bit word.
\<close>

record GenesisBlockchain =
  gb_Timestamp :: int64
  gb_BlockGasLimit :: uint64
  gb_ActionGasLimit :: uint64
  gb_BlockInterval :: int64
  gb_NumSubEpochs :: uint64
  gb_NumDelegates :: uint64
  gb_NumCandidateDelegates :: uint64
  gb_TimeBasedRotation :: bool

record GenesisAccount =
  ga_InitBalanceAddrs :: "string list"
  ga_InitBalances :: "string list"

record GenesisDelegate =
  gd_OperatorAddr :: string
  gd_RewardAddr :: string
  gd_Votes :: string

record GenesisPoll =
  gp_EnableGravityChainVoting :: bool
  gp_GravityChainStartHeight :: uint64
  gp_RegisterContractAddress :: string
  gp_StakingContractAddress :: string
  gp_VoteThreshold :: string
  gp_ScoreThreshold :: string
  gp_SelfStakingThreshold :: string
  gp_Delegates :: "GenesisDelegate list"

record GenesisRewarding =
  gr_InitBalance :: string
  gr_BlockReward :: string
  gr_EpochReward :: string
  gr_NumDelegatesForEpochReward :: uint64
  gr_FoundationBonus :: string
  gr_NumDelegatesForFoundationBonus :: uint64
  gr_FoundationBonusLastEpoch :: uint64
  gr_ProductivityThreshold :: uint64

record GenesisProto =
  pb_Blockchain :: GenesisBlockchain
  pb_Account :: GenesisAccount
  pb_Poll :: GenesisPoll
  pb_Rewarding :: GenesisRewarding

datatype panic =
  LogPanic string
  | SliceBoundsOutOfRange nat nat

text \<open>
  \<open>LogPanic\<close> is a panic raised through the logger (\<open>log.L().Panic\<close>,
  \<open>log.S().Panicf\<close>) with its formatted message; \<open>SliceBoundsOutOfRange hi n\<close> is the
  run-time panic of a slice expression \<open>v[:hi]\<close> on a string of length \<open>n < hi\<close>.

  Indexing a Go map with a key it does not hold gives the zero value, the empty string.
\<close>

definition map_index :: "(string \<times> string) list \<Rightarrow> string \<Rightarrow> string" where
  "map_index m k = (case map_of m k of Some v \<Rightarrow> v | None \<Rightarrow> [])"

text \<open>
  The first loop of \<open>Hash\<close> collects the keys in the order \<open>range\<close> visits them and
  \<open>sort.Strings\<close> sorts them bytewise; the second looks each sorted key up; the third
  copies the delegates in their configured order.
\<close>

definition initBalanceAddrs :: "Genesis \<Rightarrow> string list" where
  "initBalanceAddrs g = sort (map fst (InitBalanceMap (Account g)))"

definition initBalances :: "Genesis \<Rightarrow> string list" where
  "initBalances g = map (map_index (InitBalanceMap (Account g))) (initBalanceAddrs g)"

definition dProto :: "Delegate \<Rightarrow> GenesisDelegate" where
  "dProto d = \<lparr>
     gd_OperatorAddr = OperatorAddrStr d,
     gd_RewardAddr = RewardAddrStr d,
     gd_Votes = VotesStr d \<rparr>"

definition gProto :: "Genesis \<Rightarrow> GenesisProto" where
  "gProto g = \<lparr>
     pb_Blockchain = \<lparr>
       gb_Timestamp = Timestamp (Blockchain g),
       gb_BlockGasLimit = BlockGasLimit (Blockchain g),
       gb_ActionGasLimit = ActionGasLimit (Blockchain g),
       gb_BlockInterval = BlockInterval (Blockchain g),
       gb_NumSubEpochs = NumSubEpochs (Blockchain g),
       gb_NumDelegates = NumDelegates (Blockchain g),
       gb_NumCandidateDelegates = NumCandidateDelegates (Blockchain g),
       gb_TimeBasedRotation = TimeBasedRotation (Blockchain g) \<rparr>,
     pb_Account = \<lparr>
       ga_InitBalanceAddrs = initBalanceAddrs g,
       ga_InitBalances = initBalances g \<rparr>,
     pb_Poll = \<lparr>
       gp_EnableGravityChainVoting = EnableGravityChainVoting (Poll g),
       gp_GravityChainStartHeight = GravityChainStartHeight (Poll g),
       gp_RegisterContractAddress = RegisterContractAddress (Poll g),
       gp_StakingContractAddress = StakingContractAddress (Poll g),
       gp_VoteThreshold = VoteThreshold (Poll g),
       gp_ScoreThreshold = ScoreThreshold (Poll g),
       gp_SelfStakingThreshold = SelfStakingThreshold (Poll g),
       gp_Delegates = map dProto (Delegates (Poll g)) \<rparr>,
     pb_Rewarding = \<lparr>
       gr_InitBalance = InitBalanceStr (Rewarding g),
       gr_BlockReward = BlockRewardStr (Rewarding g),
       gr_EpochReward = EpochRewardStr (Rewarding g),
       gr_NumDelegatesForEpochReward = NumDelegatesForEpochReward (Rewarding g),
       gr_FoundationBonus = FoundationBonusStr (Rewarding g),
       gr_NumDelegatesForFoundationBonus = NumDelegatesForFoundationBonus (Rewarding g),
       gr_FoundationBonusLastEpoch = FoundationBonusLastEpoch (Rewarding g),
       gr_ProductivityThreshold = ProductivityThreshold (Rewarding g) \<rparr> \<rparr>"

definition Hash ::
  "(GenesisProto \<Rightarrow> 'e + 8 word list) \<Rightarrow> (8 word list \<Rightarrow> 256 word) \<Rightarrow> Genesis
     \<Rightarrow> panic + 256 word" where
  "Hash marshal hash256b g =
     (case marshal (gProto g) of
        Inl err \<Rightarrow> Inl (LogPanic ''Error when marshaling genesis proto'')
      | Inr b \<Rightarrow> Inr (hash256b b))"

subsection \<open>The replay-deployer whitelist\<close>

text \<open>
  \<open>address.FromString\<close>, \<open>address.FromHex\<close>, \<open>address.Equal\<close> and
  \<open>common.IsHexAddress\<close> belong to other libraries and are parameters; the parsers return
  the library's error or the address. The slice expression \<open>v[:3]\<close> panics on a string
  shorter than three bytes, before anything is compared.
\<close>

fun IsDeployerWhitelisted_loop ::
  "(string \<Rightarrow> 'e + 'a) \<Rightarrow> (string \<Rightarrow> bool) \<Rightarrow> (string \<Rightarrow> 'e + 'a) \<Rightarrow> ('a \<Rightarrow> 'a \<Rightarrow> bool)
     \<Rightarrow> string list \<Rightarrow> 'a \<Rightarrow> panic + bool" where
  "IsDeployerWhitelisted_loop FromString IsHexAddress FromHex Equal [] deployer = Inr False"
| "IsDeployerWhitelisted_loop FromString IsHexAddress FromHex Equal (v # vs) deployer =
     (if length v < 3 then Inl (SliceBoundsOutOfRange 3 (length v))
      else if take 3 v = ''io1'' then
        (case FromString v of
           Inr addr \<Rightarrow>
             if Equal deployer addr then Inr True
             else IsDeployerWhitelisted_loop FromString IsHexAddress FromHex Equal vs deployer
         | Inl err \<Rightarrow> IsDeployerWhitelisted_loop FromString IsHexAddress FromHex Equal vs deployer)
      else if IsHexAddress v then
        (case FromHex v of
           Inr addr \<Rightarrow>
             if Equal deployer addr then Inr True
             else IsDeployerWhitelisted_loop FromString IsHexAddress FromHex Equal vs deployer
         | Inl err \<Rightarrow> IsDeployerWhitelisted_loop FromString IsHexAddress FromHex Equal vs deployer)
      else IsDeployerWhitelisted_loop FromString IsHexAddress FromHex Equal vs deployer)"

definition IsDeployerWhitelisted ::
  "(string \<Rightarrow> 'e + 'a) \<Rightarrow> (string \<Rightarrow> bool) \<Rightarrow> (string \<Rightarrow> 'e + 'a) \<Rightarrow> ('a \<Rightarrow> 'a \<Rightarrow> bool)
     \<Rightarrow> Account \<Rightarrow> 'a \<Rightarrow> panic + bool" where
  "IsDeployerWhitelisted FromString IsHexAddress FromHex Equal a deployer =
     IsDeployerWhitelisted_loop FromString IsHexAddress FromHex Equal
       (ReplayDeployerWhitelist a) deployer"

text \<open>
  What one pass of the loop body decides for an entry \<open>v\<close> of at least three bytes:
  whether \<open>v\<close>, read as the native form when it starts with \<open>io1\<close> and as hex when
  \<open>IsHexAddress\<close> accepts it, parses to an address equal to the deployer. It is used to
  state what the loop returns; the loop above does not call it.
\<close>

definition entry_matches ::
  "(string \<Rightarrow> 'e + 'a) \<Rightarrow> (string \<Rightarrow> bool) \<Rightarrow> (string \<Rightarrow> 'e + 'a) \<Rightarrow> ('a \<Rightarrow> 'a \<Rightarrow> bool)
     \<Rightarrow> 'a \<Rightarrow> string \<Rightarrow> bool" where
  "entry_matches FromString IsHexAddress FromHex Equal deployer v =
     (if take 3 v = ''io1'' then
        (case FromString v of Inr addr \<Rightarrow> Equal deployer addr | Inl err \<Rightarrow> False)
      else IsHexAddress v \<and>
        (case FromHex v of Inr addr \<Rightarrow> Equal deployer addr | Inl err \<Rightarrow> False))"

subsection \<open>Amounts from decimal strings\<close>

text \<open>
  Every amount accessor calls \<open>new(big.Int).SetString(s, 10)\<close> of Go's \<open>math/big\<close> and
  panics through the logger when it reports failure. The parser is the parameter
  \<open>SetString\<close>, from the string and the base to the parsed integer, \<open>None\<close> when Go's
  second result is \<open>false\<close>. The panic of \<open>FoundationBonus\<close> prints \<open>EpochRewardStr\<close>,
  as the source does.
\<close>

definition Votes :: "(string \<Rightarrow> nat \<Rightarrow> int option) \<Rightarrow> Delegate \<Rightarrow> panic + int" where
  "Votes SetString d =
     (case SetString (VotesStr d) 10 of
        None \<Rightarrow> Inl (LogPanic (''Error when casting votes string '' @ VotesStr d @ '' into big int''))
      | Some val \<Rightarrow> Inr val)"

definition InitBalance :: "(string \<Rightarrow> nat \<Rightarrow> int option) \<Rightarrow> Rewarding \<Rightarrow> panic + int" where
  "InitBalance SetString r =
     (case SetString (InitBalanceStr r) 10 of
        None \<Rightarrow> Inl (LogPanic (''Error when casting init balance string '' @ InitBalanceStr r @ '' into big int''))
      | Some val \<Rightarrow> Inr val)"

definition BlockReward :: "(string \<Rightarrow> nat \<Rightarrow> int option) \<Rightarrow> Rewarding \<Rightarrow> panic + int" where
  "BlockReward SetString r =
     (case SetString (BlockRewardStr r) 10 of
        None \<Rightarrow> Inl (LogPanic (''Error when casting block reward string '' @ BlockRewardStr r @ '' into big int''))
      | Some val \<Rightarrow> Inr val)"

definition EpochReward :: "(string \<Rightarrow> nat \<Rightarrow> int option) \<Rightarrow> Rewarding \<Rightarrow> panic + int" where
  "EpochReward SetString r =
     (case SetString (EpochRewardStr r) 10 of
        None \<Rightarrow> Inl (LogPanic (''Error when casting epoch reward string '' @ EpochRewardStr r @ '' into big int''))
      | Some val \<Rightarrow> Inr val)"

definition AleutianEpochReward :: "(string \<Rightarrow> nat \<Rightarrow> int option) \<Rightarrow> Rewarding \<Rightarrow> panic + int" where
  "AleutianEpochReward SetString r =
     (case SetString (AleutianEpochRewardStr r) 10 of
        None \<Rightarrow> Inl (LogPanic (''Error when casting epoch reward string '' @ AleutianEpochRewardStr r @ '' into big int''))
      | Some val \<Rightarrow> Inr val)"

definition DardanellesBlockReward :: "(string \<Rightarrow> nat \<Rightarrow> int option) \<Rightarrow> Rewarding \<Rightarrow> panic + int" where
  "DardanellesBlockReward SetString r =
     (case SetString (DardanellesBlockRewardStr r) 10 of
        None \<Rightarrow> Inl (LogPanic (''Error when casting block reward string '' @ DardanellesBlockRewardStr r @ '' into big int''))
      | Some val \<Rightarrow> Inr val)"

definition WakeBlockReward :: "(string \<Rightarrow> nat \<Rightarrow> int option) \<Rightarrow> Rewarding \<Rightarrow> panic + int" where
  "WakeBlockReward SetString r =
     (case SetString (WakeBlockRewardStr r) 10 of
        None \<Rightarrow> Inl (LogPanic (''Error when casting block reward string '' @ WakeBlockRewardStr r @ '' into big int''))
      | Some val \<Rightarrow> Inr val)"

definition FoundationBonus :: "(string \<Rightarrow> nat \<Rightarrow> int option) \<Rightarrow> Rewarding \<Rightarrow> panic + int" where
  "FoundationBonus SetString r =
     (case SetString (FoundationBonusStr r) 10 of
        None \<Rightarrow> Inl (LogPanic (''Error when casting bootstrap bonus string '' @ EpochRewardStr r @ '' into big int''))
      | Some val \<Rightarrow> Inr val)"

text \<open>
  Modelled from the spec: \<open>big.Int.SetString\<close> of Go's standard library, which is not
  under the repository's sources. The spec has \<open>amount\<close> parse a base-10 integer string:
  an optional sign, then one or more decimal digits, and nothing else; any other string
  is a parse failure. Only base 10 is modelled, the one base the accessors pass.
\<close>

definition digit_of :: "char \<Rightarrow> nat option" where
  "digit_of c =
     (if CHR ''0'' \<le> c \<and> c \<le> CHR ''9'' then Some (of_char c - of_char (CHR ''0'')) else None)"

fun scan_digits :: "nat \<Rightarrow> string \<Rightarrow> nat option" where
  "scan_digits acc [] = Some acc"
| "scan_digits acc (c # cs) =
     (case digit_of c of None \<Rightarrow> None | Some d \<Rightarrow> scan_digits (10 * acc + d) cs)"

definition scan_unsigned :: "string \<Rightarrow> nat option" where
  "scan_unsigned ds = (if ds = [] then None else scan_digits 0 ds)"

definition SetString10 :: "string \<Rightarrow> nat \<Rightarrow> int option" where
  "SetString10 s base =
     (if base \<noteq> 10 then None
      else case s of
        [] \<Rightarrow> None
      | c # cs \<Rightarrow>
          if c = CHR ''-'' then map_option (\<lambda>n. - int n) (scan_unsigned cs)
          else if c = CHR ''+'' then map_option int (scan_unsigned cs)
          else map_option int (scan_unsigned s))"

section \<open>Properties\<close>

subsection \<open>Fork predicates\<close>

lemmas fork_defs = IsPacific_def IsAleutian_def IsBering_def IsCook_def IsDardanelles_def
  IsDaytona_def IsEaster_def IsFairbank_def IsFbkMigration_def IsGreenland_def IsHawaii_def
  IsIceland_def IsJutland_def IsKamchatka_def IsLordHowe_def IsMidway_def IsNewfoundland_def
  IsOkhotsk_def IsPalau_def IsQuebec_def IsRedsea_def IsSumatra_def IsTsunami_def
  IsUpernavik_def IsVanuatu_def IsWake_def IsToBeEnabled_def

lemma isPost_mono: "h1 < h2 \<Longrightarrow> isPost g t h1 \<Longrightarrow> isPost g t h2"
  by (simp add: isPost_def)

lemma named_forks_isPost:
  "(H, P) \<in> set named_forks \<Longrightarrow> P = (\<lambda>g. isPost g (H g))"
  unfolding named_forks_def by (auto simp: fork_defs fun_eq_iff)

text \<open>
  C1. For every named fork, with \<open>H\<close> its configured activation height and \<open>P\<close> its
  predicate (\<open>IsPacific\<close> ... \<open>IsWake\<close>, \<open>IsToBeEnabled\<close>), \<open>P g h\<close> holds exactly when
  \<open>h\<close> is at least \<open>H g\<close>, the bound included; hence \<open>P g\<close> is monotone in the height:
  active at \<open>h1\<close> and \<open>h1 < h2\<close> give active at \<open>h2\<close>.
\<close>

theorem fork_active_iff_mono:
  assumes "(H, P) \<in> set named_forks"
  shows "(P g h \<longleftrightarrow> H g \<le> h) \<and> (h1 < h2 \<longrightarrow> P g h1 \<longrightarrow> P g h2)"
proof -
  have P: "P = (\<lambda>g. isPost g (H g))" using assms by (rule named_forks_isPost)
  show ?thesis unfolding P using isPost_mono[of h1 h2 g "H g"] by (simp add: isPost_def)
qed

text \<open>
  With the defaults, Pacific is inactive at height 432000, active at its activation
  height 432001 and still active at 432002.
\<close>

theorem fork_active_witness:
  "(PacificBlockHeight, IsPacific) \<in> set named_forks
   \<and> IsPacific (Blockchain (defaultConfig (\<lambda>n. []))) 432001
   \<and> \<not> IsPacific (Blockchain (defaultConfig (\<lambda>n. []))) 432000
   \<and> (432001 :: uint64) < 432002
   \<and> IsPacific (Blockchain (defaultConfig (\<lambda>n. []))) 432002"
proof -
  have m: "(PacificBlockHeight, IsPacific) \<in> set named_forks"
    by (simp add: named_forks_def)
  have H: "PacificBlockHeight (Blockchain (defaultConfig (\<lambda>n. []))) = 432001"
    by (simp add: defaultConfig_def)
  show ?thesis
    using m fork_active_iff_mono[OF m, of "Blockchain (defaultConfig (\<lambda>n. []))" 432001 432001 432002]
      fork_active_iff_mono[OF m, of "Blockchain (defaultConfig (\<lambda>n. []))" 432000 432001 432002]
    by (simp add: H)
qed

text \<open>The largest \<open>uint64\<close> is at most a height exactly when the height is that value.\<close>

lemma max_uint64_le_iff: "(- 1 :: uint64) \<le> h \<longleftrightarrow> unat h = 18446744073709551615"
proof
  assume "(- 1 :: uint64) \<le> h"
  then have "h = - 1" by (simp add: word_order.extremum_unique)
  then show "unat h = 18446744073709551615"
    by (simp add: unsigned_minus_1_eq_mask mask_eq_exp_minus_1)
next
  assume a: "unat h = 18446744073709551615"
  have "unat (- 1 :: uint64) = 18446744073709551615"
    by (simp add: unsigned_minus_1_eq_mask mask_eq_exp_minus_1)
  with a have "unat h = unat (- 1 :: uint64)" by simp
  then have "h = - 1" by (simp only: word_unat_eq_iff)
  then show "(- 1 :: uint64) \<le> h" by simp
qed

text \<open>
  C10. With the default configuration \<open>ToBeEnabledBlockHeight\<close> is the largest
  \<open>uint64\<close>, and \<open>IsToBeEnabled\<close> is true at exactly one height, that largest value
  \<open>2^64 - 1 = 18446744073709551615\<close>: false at every height below it, true at it.
\<close>

theorem IsToBeEnabled_default:
  "ToBeEnabledBlockHeight (Blockchain (defaultConfig rau)) = - 1
   \<and> (IsToBeEnabled (Blockchain (defaultConfig rau)) h \<longleftrightarrow> unat h = 18446744073709551615)"
  by (simp add: IsToBeEnabled_def isPost_def defaultConfig_def max_uint64_le_iff)

subsection \<open>The tiered block gas limit\<close>

text \<open>
  C3. When the base limit is 20000000, the Tsunami limit 50000000 and the Wake limit
  25000000, and the Tsunami height \<open>h1\<close> is below the Wake height \<open>h2\<close> (the base tier
  holds from genesis), \<open>BlockGasLimitByHeight\<close> returns the tier with the greatest
  activation height not above the height asked for: 20000000 below \<open>h1\<close>, 50000000 from
  \<open>h1\<close> to below \<open>h2\<close>, 25000000 from \<open>h2\<close> on.
\<close>

theorem BlockGasLimitByHeight_tiers:
  assumes "BlockGasLimit g = 20000000"
    and "TsunamiBlockGasLimit g = 50000000"
    and "WakeBlockGasLimit g = 25000000"
    and "TsunamiBlockHeight g < WakeBlockHeight g"
  shows "BlockGasLimitByHeight g height =
     (if height < TsunamiBlockHeight g then 20000000
      else if height < WakeBlockHeight g then 50000000
      else 25000000)"
  using assms by (auto simp: BlockGasLimitByHeight_def isPost_def)

text \<open>
  With the defaults (Tsunami at 29275561, Wake at 36893881) the limit changes at exactly
  those two heights.
\<close>

theorem BlockGasLimitByHeight_tiers_witness:
  "BlockGasLimit (Blockchain (defaultConfig (\<lambda>n. []))) = 20000000
   \<and> TsunamiBlockGasLimit (Blockchain (defaultConfig (\<lambda>n. []))) = 50000000
   \<and> WakeBlockGasLimit (Blockchain (defaultConfig (\<lambda>n. []))) = 25000000
   \<and> TsunamiBlockHeight (Blockchain (defaultConfig (\<lambda>n. [])))
       < WakeBlockHeight (Blockchain (defaultConfig (\<lambda>n. [])))
   \<and> BlockGasLimitByHeight (Blockchain (defaultConfig (\<lambda>n. []))) 29275560 = 20000000
   \<and> BlockGasLimitByHeight (Blockchain (defaultConfig (\<lambda>n. []))) 29275561 = 50000000
   \<and> BlockGasLimitByHeight (Blockchain (defaultConfig (\<lambda>n. []))) 36893880 = 50000000
   \<and> BlockGasLimitByHeight (Blockchain (defaultConfig (\<lambda>n. []))) 36893881 = 25000000"
proof -
  let ?b = "Blockchain (defaultConfig (\<lambda>n. []))"
  have b: "BlockGasLimit ?b = 20000000" and t: "TsunamiBlockGasLimit ?b = 50000000"
    and w: "WakeBlockGasLimit ?b = 25000000"
    and ht: "TsunamiBlockHeight ?b = 29275561" and hw: "WakeBlockHeight ?b = 36893881"
    by (simp_all add: defaultConfig_def)
  have lt: "TsunamiBlockHeight ?b < WakeBlockHeight ?b"
    by (simp add: ht hw)
  show ?thesis
    using BlockGasLimitByHeight_tiers[OF b t w lt, of 29275560]
      BlockGasLimitByHeight_tiers[OF b t w lt, of 29275561]
      BlockGasLimitByHeight_tiers[OF b t w lt, of 36893880]
      BlockGasLimitByHeight_tiers[OF b t w lt, of 36893881]
    by (simp add: b t w ht hw)
qed

subsection \<open>The process-wide genesis timestamp\<close>

lemma SetGenesisTimestamp_done:
  "loadGenesisTs s \<Longrightarrow> SetGenesisTimestamp t s = s"
  by (simp add: SetGenesisTimestamp_def)

lemma fold_SetGenesisTimestamp_done:
  "loadGenesisTs s \<Longrightarrow> fold SetGenesisTimestamp ts s = s"
  by (induction ts) (simp_all add: SetGenesisTimestamp_done)

text \<open>
  C8. The genesis timestamp is set once: after a first call \<open>SetGenesisTimestamp t1\<close>
  (one made while the \<open>sync.Once\<close> has not fired), any further calls with any values
  \<open>ts\<close>, equal to \<open>t1\<close> or not, leave the stored value \<open>t1\<close>, and \<open>Timestamp()\<close> reads
  \<open>t1\<close>.
\<close>

theorem SetGenesisTimestamp_set_once:
  assumes "\<not> loadGenesisTs s"
  shows "genesisTs (fold SetGenesisTimestamp ts (SetGenesisTimestamp t1 s)) = t1
     \<and> Timestamp_func (fold SetGenesisTimestamp ts (SetGenesisTimestamp t1 s)) = t1"
proof -
  let ?s1 = "SetGenesisTimestamp t1 s"
  have d: "loadGenesisTs ?s1" and v: "genesisTs ?s1 = t1"
    using assms by (simp_all add: SetGenesisTimestamp_def)
  have "fold SetGenesisTimestamp ts ?s1 = ?s1"
    using d by (rule fold_SetGenesisTimestamp_done)
  then show ?thesis using v by (simp add: Timestamp_func_def)
qed

text \<open>
  From the initial state, setting 1546329600 and then 1553558500 leaves 1546329600.
\<close>

theorem SetGenesisTimestamp_set_once_witness:
  "\<not> loadGenesisTs init_globals
   \<and> Timestamp_func (SetGenesisTimestamp 1546329600 init_globals) = 1546329600
   \<and> Timestamp_func (SetGenesisTimestamp 1553558500 (SetGenesisTimestamp 1546329600 init_globals))
       = 1546329600"
proof -
  have h: "\<not> loadGenesisTs init_globals" by (simp add: init_globals_def)
  show ?thesis
    using h SetGenesisTimestamp_set_once[OF h, of "[]" 1546329600]
      SetGenesisTimestamp_set_once[OF h, of "[1553558500]" 1546329600]
    by simp
qed

subsection \<open>The genesis hash\<close>


lemma sort_keys_permuted:
  assumes "distinct (map fst m)" and "distinct (map fst m')" and "set m = set m'"
  shows "sort (map fst m) = sort (map fst m')"
proof (rule sorted_distinct_set_unique)
  show "sorted (sort (map fst m))" and "sorted (sort (map fst m'))" by simp_all
  show "distinct (sort (map fst m))" and "distinct (sort (map fst m'))"
    using assms(1,2) by simp_all
  show "set (sort (map fst m)) = set (sort (map fst m'))"
    using assms(3) by simp
qed

lemma map_index_permuted:
  assumes "distinct (map fst m)" and "distinct (map fst m')" and "set m = set m'"
  shows "map_index m = map_index m'"
proof -
  have "map_of m = map_of m'"
    using assms by (simp add: map_of_inject_set)
  then show ?thesis by (simp add: map_index_def fun_eq_iff)
qed

text \<open>
  C2. The commitment does not depend on the order in which the initial-balance table is
  visited: two parameter sets whose tables are well-formed maps (distinct keys) holding
  the same address-amount pairs, in any order, and which agree on all other fields, have
  the same \<open>Hash\<close>, for any serialiser and hash function, because the addresses are
  sorted before they are serialised.
\<close>

theorem Hash_balance_order_independent:
  assumes "distinct (map fst (InitBalanceMap (Account g1)))"
    and "distinct (map fst (InitBalanceMap (Account g2)))"
    and "set (InitBalanceMap (Account g1)) = set (InitBalanceMap (Account g2))"
    and "ReplayDeployerWhitelist (Account g1) = ReplayDeployerWhitelist (Account g2)"
    and "Blockchain g1 = Blockchain g2"
    and "Poll g1 = Poll g2"
    and "Rewarding g1 = Rewarding g2"
    and "Staking g1 = Staking g2"
  shows "Hash marshal hash256b g1 = Hash marshal hash256b g2"
proof -
  have k: "initBalanceAddrs g1 = initBalanceAddrs g2"
    unfolding initBalanceAddrs_def using assms(1-3) by (rule sort_keys_permuted)
  have "map_index (InitBalanceMap (Account g1)) = map_index (InitBalanceMap (Account g2))"
    using assms(1-3) by (rule map_index_permuted)
  with k have v: "initBalances g1 = initBalances g2"
    by (simp add: initBalances_def)
  have "gProto g1 = gProto g2"
    using k v assms(5-7) by (simp add: gProto_def)
  then show ?thesis by (simp add: Hash_def)
qed

lemma sort_bac: "sort [''b'', ''a'', ''c''] = [''a'', ''b'', ''c'']"
  by code_simp

text \<open>
  The table \<open>{b: 2, a: 1, c: 3}\<close> visited as \<open>b, a, c\<close> and as \<open>a, c, b\<close>: both are
  serialised as the addresses \<open>a, b, c\<close> with the amounts \<open>1, 2, 3\<close>, and the two
  commitments agree.
\<close>

theorem Hash_balance_order_independent_witness:
  "\<forall>(marshal :: GenesisProto \<Rightarrow> unit + 8 word list) hash256b.
     distinct (map fst [(''b'', ''2''), (''a'', ''1''), (''c'', ''3'')])
     \<and> distinct (map fst [(''a'', ''1''), (''c'', ''3''), (''b'', ''2'')])
     \<and> set [(''b'', ''2''), (''a'', ''1''), (''c'', ''3'')]
         = set [(''a'', ''1''), (''c'', ''3''), (''b'', ''2'')]
     \<and> pb_Account (gProto ((defaultConfig (\<lambda>n. []))\<lparr>Account :=
           \<lparr>InitBalanceMap = [(''b'', ''2''), (''a'', ''1''), (''c'', ''3'')],
            ReplayDeployerWhitelist = []\<rparr>\<rparr>))
         = \<lparr>ga_InitBalanceAddrs = [''a'', ''b'', ''c''], ga_InitBalances = [''1'', ''2'', ''3'']\<rparr>
     \<and> Hash marshal hash256b
           ((defaultConfig (\<lambda>n. []))\<lparr>Account :=
              \<lparr>InitBalanceMap = [(''b'', ''2''), (''a'', ''1''), (''c'', ''3'')],
               ReplayDeployerWhitelist = []\<rparr>\<rparr>)
         = Hash marshal hash256b
           ((defaultConfig (\<lambda>n. []))\<lparr>Account :=
              \<lparr>InitBalanceMap = [(''a'', ''1''), (''c'', ''3''), (''b'', ''2'')],
               ReplayDeployerWhitelist = []\<rparr>\<rparr>)"
proof (intro allI)
  fix marshal :: "GenesisProto \<Rightarrow> unit + 8 word list" and hash256b
  let ?m1 = "[(''b'', ''2''), (''a'', ''1''), (''c'', ''3'')]"
  let ?m2 = "[(''a'', ''1''), (''c'', ''3''), (''b'', ''2'')]"
  let ?g1 = "(defaultConfig (\<lambda>n. []))\<lparr>Account :=
     \<lparr>InitBalanceMap = ?m1, ReplayDeployerWhitelist = []\<rparr>\<rparr>"
  let ?g2 = "(defaultConfig (\<lambda>n. []))\<lparr>Account :=
     \<lparr>InitBalanceMap = ?m2, ReplayDeployerWhitelist = []\<rparr>\<rparr>"
  have d1: "distinct (map fst ?m1)" and d2: "distinct (map fst ?m2)" by simp_all
  have s: "set ?m1 = set ?m2" by auto
  have d1': "distinct (map fst (InitBalanceMap (Account ?g1)))"
    and d2': "distinct (map fst (InitBalanceMap (Account ?g2)))" by simp_all
  have s': "set (InitBalanceMap (Account ?g1)) = set (InitBalanceMap (Account ?g2))" by auto
  have a: "pb_Account (gProto ?g1)
      = \<lparr>ga_InitBalanceAddrs = [''a'', ''b'', ''c''], ga_InitBalances = [''1'', ''2'', ''3'']\<rparr>"
    by (simp add: gProto_def initBalanceAddrs_def initBalances_def sort_bac map_index_def)
  have h: "Hash marshal hash256b ?g1 = Hash marshal hash256b ?g2"
    by (rule Hash_balance_order_independent[OF d1' d2' s']) simp_all
  show "distinct (map fst ?m1) \<and> distinct (map fst ?m2) \<and> set ?m1 = set ?m2
      \<and> pb_Account (gProto ?g1)
         = \<lparr>ga_InitBalanceAddrs = [''a'', ''b'', ''c''], ga_InitBalances = [''1'', ''2'', ''3'']\<rparr>
      \<and> Hash marshal hash256b ?g1 = Hash marshal hash256b ?g2"
    using d1 d2 s a h by (intro conjI)
qed










subsection \<open>The replay-deployer whitelist\<close>

text \<open>
  C7 fails on the code. With the whitelist holding the single entry \<open>0x\<close>, two bytes
  long, \<open>IsDeployerWhitelisted\<close> does not return a boolean: the slice \<open>v[:3]\<close> panics,
  for every deployer and whatever the address parsers are.
\<close>

theorem IsDeployerWhitelisted_short_entry_panics:
  "IsDeployerWhitelisted FromString IsHexAddress FromHex Equal
     (a\<lparr>ReplayDeployerWhitelist := [''0x'']\<rparr>) deployer
   = Inl (SliceBoundsOutOfRange 3 2)"
  by (simp add: IsDeployerWhitelisted_def)

text \<open>
  The same happens at the first entry shorter than three bytes that the loop reaches.
  When every entry has at least three bytes, the call returns a boolean, true exactly when
  some entry parses to an address equal to the deployer; an entry that does not parse is
  passed over.
\<close>

lemma IsDeployerWhitelisted_loop_short:
  "length v < 3 \<Longrightarrow>
   IsDeployerWhitelisted_loop FromString IsHexAddress FromHex Equal (v # vs) deployer
     = Inl (SliceBoundsOutOfRange 3 (length v))"
  by simp

lemma IsDeployerWhitelisted_loop_long:
  "list_all (\<lambda>v. 3 \<le> length v) vs \<Longrightarrow>
   IsDeployerWhitelisted_loop FromString IsHexAddress FromHex Equal vs deployer
     = Inr (list_ex (entry_matches FromString IsHexAddress FromHex Equal deployer) vs)"
  by (induction vs) (auto simp: entry_matches_def split: sum.splits)

lemma IsDeployerWhitelisted_long:
  "list_all (\<lambda>v. 3 \<le> length v) (ReplayDeployerWhitelist a) \<Longrightarrow>
   IsDeployerWhitelisted FromString IsHexAddress FromHex Equal a deployer
     = Inr (list_ex (entry_matches FromString IsHexAddress FromHex Equal deployer)
         (ReplayDeployerWhitelist a))"
  by (simp add: IsDeployerWhitelisted_def IsDeployerWhitelisted_loop_long)

subsection \<open>Amounts from decimal strings\<close>

text \<open>
  C9. Each amount accessor (\<open>Votes\<close>, \<open>InitBalance\<close>, \<open>BlockReward\<close>, \<open>EpochReward\<close>,
  \<open>AleutianEpochReward\<close>, \<open>DardanellesBlockReward\<close>, \<open>WakeBlockReward\<close>,
  \<open>FoundationBonus\<close>) parses its own field in base 10; it returns the integer \<open>v\<close>
  exactly when the parse succeeds with \<open>v\<close>, and it panics through the logger exactly
  when the parse fails. It never returns an error value or a default amount.
\<close>

theorem amount_accessors:
  "(Votes SetString d = Inr v \<longleftrightarrow> SetString (VotesStr d) 10 = Some v)
   \<and> ((\<exists>msg. Votes SetString d = Inl (LogPanic msg)) \<longleftrightarrow> SetString (VotesStr d) 10 = None)
   \<and> (InitBalance SetString r = Inr v \<longleftrightarrow> SetString (InitBalanceStr r) 10 = Some v)
   \<and> ((\<exists>msg. InitBalance SetString r = Inl (LogPanic msg))
        \<longleftrightarrow> SetString (InitBalanceStr r) 10 = None)
   \<and> (BlockReward SetString r = Inr v \<longleftrightarrow> SetString (BlockRewardStr r) 10 = Some v)
   \<and> ((\<exists>msg. BlockReward SetString r = Inl (LogPanic msg))
        \<longleftrightarrow> SetString (BlockRewardStr r) 10 = None)
   \<and> (EpochReward SetString r = Inr v \<longleftrightarrow> SetString (EpochRewardStr r) 10 = Some v)
   \<and> ((\<exists>msg. EpochReward SetString r = Inl (LogPanic msg))
        \<longleftrightarrow> SetString (EpochRewardStr r) 10 = None)
   \<and> (AleutianEpochReward SetString r = Inr v
        \<longleftrightarrow> SetString (AleutianEpochRewardStr r) 10 = Some v)
   \<and> ((\<exists>msg. AleutianEpochReward SetString r = Inl (LogPanic msg))
        \<longleftrightarrow> SetString (AleutianEpochRewardStr r) 10 = None)
   \<and> (DardanellesBlockReward SetString r = Inr v
        \<longleftrightarrow> SetString (DardanellesBlockRewardStr r) 10 = Some v)
   \<and> ((\<exists>msg. DardanellesBlockReward SetString r = Inl (LogPanic msg))
        \<longleftrightarrow> SetString (DardanellesBlockRewardStr r) 10 = None)
   \<and> (WakeBlockReward SetString r = Inr v \<longleftrightarrow> SetString (WakeBlockRewardStr r) 10 = Some v)
   \<and> ((\<exists>msg. WakeBlockReward SetString r = Inl (LogPanic msg))
        \<longleftrightarrow> SetString (WakeBlockRewardStr r) 10 = None)
   \<and> (FoundationBonus SetString r = Inr v \<longleftrightarrow> SetString (FoundationBonusStr r) 10 = Some v)
   \<and> ((\<exists>msg. FoundationBonus SetString r = Inl (LogPanic msg))
        \<longleftrightarrow> SetString (FoundationBonusStr r) 10 = None)"
  by (simp add: Votes_def InitBalance_def BlockReward_def EpochReward_def AleutianEpochReward_def
      DardanellesBlockReward_def WakeBlockReward_def FoundationBonus_def split: option.split)

text \<open>The base-10 parser on a decimal string, on a signed one and on \<open>not-a-number\<close>.\<close>

lemma SetString10_wake: "SetString10 ''4000000000000000000'' 10 = Some 4000000000000000000"
  by (simp add: SetString10_def scan_unsigned_def digit_of_def less_eq_char_def)

lemma SetString10_negative: "SetString10 ''-42'' 10 = Some (- 42)"
  by (simp add: SetString10_def scan_unsigned_def digit_of_def less_eq_char_def)

lemma SetString10_not_a_number: "SetString10 ''not-a-number'' 10 = None"
  by (simp add: SetString10_def scan_unsigned_def digit_of_def less_eq_char_def)

text \<open>
  With the base-10 parser: the default Wake block reward is 4000000000000000000, and a
  block reward or a vote count of \<open>not-a-number\<close> is a panic.
\<close>

theorem amount_accessors_witness:
  "WakeBlockReward SetString10 (Rewarding (defaultConfig (\<lambda>n. []))) = Inr 4000000000000000000
   \<and> (\<exists>msg. BlockReward SetString10
         ((Rewarding (defaultConfig (\<lambda>n. [])))\<lparr>BlockRewardStr := ''not-a-number''\<rparr>)
        = Inl (LogPanic msg))
   \<and> (\<exists>msg. Votes SetString10
         \<lparr>OperatorAddrStr = [], RewardAddrStr = [], VotesStr = ''not-a-number''\<rparr>
        = Inl (LogPanic msg))"
proof -
  let ?r = "Rewarding (defaultConfig (\<lambda>n. []))"
  let ?r' = "?r\<lparr>BlockRewardStr := ''not-a-number''\<rparr>"
  let ?d = "\<lparr>OperatorAddrStr = [], RewardAddrStr = [], VotesStr = ''not-a-number''\<rparr>"
  have w: "SetString10 (WakeBlockRewardStr ?r) 10 = Some 4000000000000000000"
    by (simp add: defaultConfig_def SetString10_wake)
  have b: "SetString10 (BlockRewardStr ?r') 10 = None"
    by (simp add: SetString10_not_a_number)
  have v: "SetString10 (VotesStr ?d) 10 = None"
    by (simp add: SetString10_not_a_number)
  from w amount_accessors[of SetString10 ?d 4000000000000000000 ?r]
  have 1: "WakeBlockReward SetString10 ?r = Inr 4000000000000000000" by blast
  from b amount_accessors[of SetString10 ?d 0 ?r']
  have 2: "\<exists>msg. BlockReward SetString10 ?r' = Inl (LogPanic msg)" by blast
  from v amount_accessors[of SetString10 ?d 0 ?r]
  have 3: "\<exists>msg. Votes SetString10 ?d = Inl (LogPanic msg)" by blast
  from 1 2 3 show ?thesis by (intro conjI)
qed

subsection \<open>Loading\<close>

text \<open>
  \<open>New\<close> returns a parameter set exactly when both library calls succeed, and then it is
  the populated record, with the bootstrap balance table substituted for an empty one.
  \<open>New\<close> itself inspects no key of the override document: whether an unknown key is an
  error is decided inside \<open>NewYAML\<close> and \<open>Populate\<close>.
\<close>

lemma New_result:
  "New NewYAML Populate rau genesisPath = Inr g \<longleftrightarrow>
     (\<exists>yaml genesis.
        NewYAML (Static (defaultConfig rau) # (if genesisPath \<noteq> [] then [File genesisPath] else []))
          = Inr yaml
        \<and> Populate yaml = Inr genesis
        \<and> g = (if InitBalanceMap (Account genesis) = []
               then genesis\<lparr>Account := (Account genesis)\<lparr>InitBalanceMap := defaultInitBalanceMap\<rparr>\<rparr>
               else genesis))"
  by (auto simp: New_def Let_def split: sum.splits)

end
